theory Spec2Isabelle
  imports Main "HOL-Library.Sublist"
begin

section \<open>JavaScript values used by the views\<close>

text \<open>
  The fields the views test for truthiness and splice into URLs are strings that may be
  missing: \<open>Undefined\<close> is an absent property, \<open>Null\<close> the JSON \<open>null\<close>. A string
  is a list of characters. Objects (\<open>data\<close>, \<open>sentiment\<close>, \<open>emoji_clouds\<close>) are always truthy
  when present, so an optional object is an \<open>option\<close> with \<open>None\<close> for \<open>null\<close> and
  \<open>undefined\<close> alike.
\<close>

datatype jstr = Undefined | Null | Str string

text \<open>ToBoolean: \<open>undefined\<close>, \<open>null\<close> and the empty string are falsy.\<close>

fun truthy :: "jstr \<Rightarrow> bool" where
  "truthy Undefined = False"
| "truthy Null = False"
| "truthy (Str s) = (s \<noteq> [])"

text \<open>ToString, as a template literal and \<open>+\<close> on a string apply it.\<close>

fun toString :: "jstr \<Rightarrow> string" where
  "toString Undefined = ''undefined''"
| "toString Null = ''null''"
| "toString (Str s) = s"

text \<open>\<open>a || b\<close>: the left operand when it is truthy, the right one otherwise.\<close>

definition js_or :: "jstr \<Rightarrow> jstr \<Rightarrow> jstr" where
  "js_or a b = (if truthy a then a else b)"

text \<open>
  \<open>String.prototype.endsWith(searchString)\<close>: the search string is compared with the
  last \<open>length searchString\<close> characters; a search string longer than the string never matches.
\<close>

definition endsWith :: "string \<Rightarrow> string \<Rightarrow> bool" where
  "endsWith s searchString =
     (length searchString \<le> length s \<and>
      drop (length s - length searchString) s = searchString)"

section \<open>Numbers\<close>

text \<open>
  A JavaScript number is an IEEE 754 double: \<open>NaN\<close>, an infinity with its sign, or a finite
  value. \<open>Finite s m e\<close> is the value \<open>m * 2 ^ e\<close>, negative when \<open>s\<close> is true. A double has
  \<open>0 \<le> m < 2 ^ 53\<close> and \<open>- 1074 \<le> e \<le> 971\<close> and is written with the largest mantissa
  (\<open>2 ^ 52 \<le> m\<close> unless \<open>e = - 1074\<close>); the two zeros are \<open>Finite False 0 (- 1074)\<close> and
  \<open>Finite True 0 (- 1074)\<close>.
\<close>

datatype jsnum = NaN | Infinite bool | Finite bool int int

text \<open>The number of binary digits of a positive integer.\<close>

function bit_length :: "int \<Rightarrow> int" where
  "bit_length n = (if n \<le> 0 then 0 else 1 + bit_length (n div 2))"
  by pat_completeness auto
termination
  by (relation "measure nat") auto

declare bit_length.simps [simp del]

text \<open>\<open>floor_log2 p q\<close> is the integer \<open>l\<close> with \<open>2 ^ l \<le> p / q < 2 ^ (l + 1)\<close>, for positive \<open>p\<close>, \<open>q\<close>.\<close>

definition floor_log2 :: "int \<Rightarrow> int \<Rightarrow> int" where
  "floor_log2 p q =
     (let l = bit_length p - bit_length q in
      if (if 0 \<le> l then q * 2 ^ nat l \<le> p else q \<le> p * 2 ^ nat (- l)) then l else l - 1)"

text \<open>The integer nearest to \<open>num / den\<close>, the even one of two that are equally near.\<close>

definition round_half_even :: "int \<Rightarrow> int \<Rightarrow> int" where
  "round_half_even num den =
     (let n = num div den; r = num mod den in
      if den < 2 * r \<or> (2 * r = den \<and> odd n) then n + 1 else n)"

text \<open>
  Rounding to nearest, ties to even: the double nearest to \<open>(p / q) * 2 ^ x\<close> for \<open>0 \<le> p\<close> and
  \<open>0 < q\<close>, with the given sign. The unit of the mantissa is \<open>2 ^ t\<close>, at least \<open>2 ^ (- 1074)\<close>
  (below \<open>2 ^ (- 1022)\<close> the result is subnormal); a result of \<open>2 ^ 1024\<close> or more is an infinity.
\<close>

definition round_to_double :: "bool \<Rightarrow> int \<Rightarrow> int \<Rightarrow> int \<Rightarrow> jsnum" where
  "round_to_double sign p q x =
     (if p = 0 then Finite sign 0 (- 1074)
      else
        let t = max (floor_log2 p q + x - 52) (- 1074);
            n = (if t \<le> x then round_half_even (p * 2 ^ nat (x - t)) q
                 else round_half_even p (q * 2 ^ nat (t - x)));
            t' = (if n = 2 ^ 53 then t + 1 else t);
            n' = (if n = 2 ^ 53 then 2 ^ 52 else n)
        in if 971 < t' then Infinite sign else Finite sign n' t')"

text \<open>The number a JSON integer literal is parsed to.\<close>

definition number :: "int \<Rightarrow> jsnum" where
  "number i = round_to_double (i < 0) \<bar>i\<bar> 1 0"

text \<open>
  The operator \<open>/\<close> on numbers. Division by a zero does not raise: a non-zero finite number or
  an infinity divided by a zero is an infinity, a zero divided by a zero is \<open>NaN\<close>; the sign
  of a result is negative exactly when the signs of the operands differ.
\<close>

fun js_divide :: "jsnum \<Rightarrow> jsnum \<Rightarrow> jsnum" where
  "js_divide NaN y = NaN"
| "js_divide x NaN = NaN"
| "js_divide (Infinite s) (Infinite s') = NaN"
| "js_divide (Infinite s) (Finite s' m' e') = Infinite (s \<noteq> s')"
| "js_divide (Finite s m e) (Infinite s') = Finite (s \<noteq> s') 0 (- 1074)"
| "js_divide (Finite s m e) (Finite s' m' e') =
     (if m' = 0 then (if m = 0 then NaN else Infinite (s \<noteq> s'))
      else round_to_double (s \<noteq> s') m m' (e - e'))"

text \<open>The decimal digits of a natural number.\<close>

function decimal :: "int \<Rightarrow> string" where
  "decimal n =
     (if n < 10 then [''0123456789'' ! nat n]
      else decimal (n div 10) @ [''0123456789'' ! nat (n mod 10)])"
  by pat_completeness auto
termination
  by (relation "measure nat") auto

declare decimal.simps [simp del]

definition strip_zeros :: "string \<Rightarrow> string" where
  "strip_zeros ds = rev (dropWhile (\<lambda>c. c = CHR ''0'') (rev ds))"

text \<open>
  \<open>Number::toString\<close> of a finite value \<open>v = m * 2 ^ e\<close> of at least \<open>10 ^ 21\<close>, an integer: the
  digits are those of the integer with the fewest significant digits that is parsed back to
  the same double, the nearest to \<open>v\<close> when there are several, written in exponential notation.
  \<open>shortest\<close> tries \<open>k = 1, 2, ...\<close> significant digits, 17 are always enough; the two
  candidates with \<open>k\<close> digits are the multiples of \<open>10 ^ (digits of v - k)\<close> around \<open>v\<close>.
\<close>

definition round_trips :: "int \<Rightarrow> int \<Rightarrow> int \<Rightarrow> bool" where
  "round_trips m e c = (round_to_double False c 1 0 = round_to_double False m 1 e)"

fun shortest :: "nat \<Rightarrow> int \<Rightarrow> int \<Rightarrow> int \<Rightarrow> nat \<Rightarrow> int" where
  "shortest 0 m e v k = v"
| "shortest (Suc fuel) m e v k =
     (let p = 10 ^ (length (decimal v) - k);
          lo = (v div p) * p;
          hi = lo + p
      in if round_trips m e lo \<and> round_trips m e hi then
           (if v - lo < hi - v \<or> (v - lo = hi - v \<and> even (v div p)) then lo else hi)
         else if round_trips m e lo then lo
         else if round_trips m e hi then hi
         else shortest fuel m e v (Suc k))"

definition exponential :: "int \<Rightarrow> string" where
  "exponential c =
     (let ds = strip_zeros (decimal c);
          ex = decimal (int (length (decimal c)) - 1)
      in if length ds = 1 then ds @ ''e+'' @ ex
         else take 1 ds @ ''.'' @ drop 1 ds @ ''e+'' @ ex)"

text \<open>
  \<open>Number.prototype.toFixed(f)\<close> on a finite value \<open>m * 2 ^ e\<close> below \<open>10 ^ 21\<close>: the integer \<open>n\<close>
  with \<open>n / 10 ^ f\<close> nearest to the value, the larger one of two that are equally near, written
  with \<open>f\<close> digits after the point.
\<close>

definition fixed :: "nat \<Rightarrow> int \<Rightarrow> int \<Rightarrow> string" where
  "fixed f m e =
     (let n = (if 0 \<le> e then m * 2 ^ nat e * 10 ^ f
               else (2 * m * 10 ^ f + 2 ^ nat (- e)) div (2 * 2 ^ nat (- e)));
          ds = decimal n;
          ds' = (if length ds \<le> f then replicate (f + 1 - length ds) CHR ''0'' @ ds else ds)
      in if f = 0 then ds'
         else take (length ds' - f) ds' @ ''.'' @ drop (length ds' - f) ds')"

text \<open>
  \<open>Number.prototype.toFixed\<close>: more than 100 fraction digits raise a \<open>RangeError\<close>; a value
  that is not finite is returned as its name; a negative value gets a minus sign (the negative
  zero does not); a magnitude of \<open>10 ^ 21\<close> or more is written as \<open>Number::toString\<close> does.
\<close>

datatype js_error = TypeError | RangeError

definition toFixed_string :: "nat \<Rightarrow> jsnum \<Rightarrow> string" where
  "toFixed_string f x =
     (case x of
        NaN \<Rightarrow> ''NaN''
      | Infinite s \<Rightarrow> (if s then ''-Infinity'' else ''Infinity'')
      | Finite s m e \<Rightarrow>
          (if s \<and> m \<noteq> 0 then ''-'' else '''') @
          (if 0 \<le> e \<and> 10 ^ 21 \<le> m * 2 ^ nat e
           then exponential (shortest 17 m e (m * 2 ^ nat e) 1)
           else fixed f m e))"

definition toFixed :: "nat \<Rightarrow> jsnum \<Rightarrow> js_error + string" where
  "toFixed f x = (if 100 < f then Inl RangeError else Inr (toFixed_string f x))"

section \<open>Data model\<close>

text \<open>The file handed to \<open>beforeUpload\<close>: its MIME type and its name.\<close>

record raw_file =
  ftype :: string
  fname :: string

text \<open>The AnalysisResponse and its parts, as the templates read them.\<close>

record time_analysis =
  first_date :: string
  last_date :: string
  total_days :: jsnum
  total_messages :: jsnum
  monthly_chart :: jstr
  hourly_chart :: jstr

record word_cloud =
  wc_both :: jstr
  wc_sender :: jstr
  wc_receiver :: jstr
  wc_french :: jstr

record analysis =
  time_analysis :: time_analysis
  calendar_heatmap :: jstr
  word_cloud :: word_cloud

record sentiment_results =
  radar_chart :: jstr
  summary :: string

record emoji_cloud =
  ec_sender :: jstr
  ec_receiver :: jstr

record response =
  success :: bool
  data :: "analysis option"
  sentiment :: "sentiment_results option"
  emoji_clouds :: "emoji_cloud option"
  emoji_symbol_cloud :: "emoji_cloud option"
  report_url :: jstr
  error :: jstr

text \<open>A notification of \<open>$message\<close> (Element UI) or \<open>ElMessage\<close> (Element Plus).\<close>

datatype message = MsgSuccess string | MsgError string

text \<open>
  The reactive state of a view (\<open>data()\<close> of the older view, the \<open>ref\<close>s of the newer one),
  together with what the handlers do to the outside: the notifications shown, the lines
  written by \<open>console.error\<close>, the calls of \<open>window.open\<close> (URL and target) and the
  upload requests the upload control has posted (URL and file).
\<close>

record view_state =
  loading :: bool
  analysisResults :: "analysis option"
  sentimentResults :: "sentiment_results option"
  emojiCloudData :: "emoji_cloud option"
  reportUrl :: jstr
  messages :: "message list"
  console :: "(string \<times> string) list"
  windows :: "(string \<times> string) list"
  requests :: "(string \<times> raw_file) list"

definition initial_state :: view_state where
  "initial_state =
     \<lparr>loading = False, analysisResults = None, sentimentResults = None,
      emojiCloudData = None, reportUrl = Null, messages = [], console = [],
      windows = [], requests = []\<rparr>"

section \<open>Configuration\<close>

text \<open>
  \<open>frontend/src/config.js\<close>: \<open>process.env.VUE_APP_API_URL || 'http://localhost:8082'\<close>.
  The argument is the value of the environment variable.
\<close>

definition API_BASE_URL :: "jstr \<Rightarrow> string" where
  "API_BASE_URL env = toString (js_or env (Str ''http://localhost:8082''))"

text \<open>\<open>frontend/src/main.js\<close>: \<open>axios.defaults.baseURL = config.API_BASE_URL\<close>.\<close>

definition http_defaults_baseURL :: "jstr \<Rightarrow> string" where
  "http_defaults_baseURL env = API_BASE_URL env"

text \<open>
  \<open>frontend-v3/src/views/HomeView.vue\<close>:
  \<open>axios.create({ baseURL: 'http://localhost:8082' })\<close>.
\<close>

definition apiClient_baseURL :: string where
  "apiClient_baseURL = ''http://localhost:8082''"

text \<open>
  \<open>frontend-v3/src/services/api.ts\<close>:
  \<open>axios.create({ baseURL: 'http://localhost:8082/api', ... })\<close>.
\<close>

definition services_apiClient_baseURL :: string where
  "services_apiClient_baseURL = ''http://localhost:8082/api''"

section \<open>The older view (\<open>frontend/src/views/HomeView.vue\<close>)\<close>

definition beforeUpload :: "raw_file \<Rightarrow> view_state \<Rightarrow> bool \<times> view_state" where
  "beforeUpload rawFile s =
     (let isCSV = (ftype rawFile = ''text/csv'' \<or> endsWith (fname rawFile) ''.csv'') in
      if \<not> isCSV then
        (False, s\<lparr>messages := messages s @ [MsgError ''Only CSV files are allowed!'']\<rparr>)
      else (True, s\<lparr>loading := True\<rparr>))"

text \<open>
  \<open>response.emoji_clouds || response.emoji_symbol_cloud\<close>, the value both views store
  in \<open>emojiCloudData\<close>: an object that is present is truthy.
\<close>

definition emoji_clouds_or_symbol_cloud :: "response \<Rightarrow> emoji_cloud option" where
  "emoji_clouds_or_symbol_cloud response =
     (case emoji_clouds response of
        Some e \<Rightarrow> Some e
      | None \<Rightarrow> emoji_symbol_cloud response)"

text \<open>
  \<open>handleUploadSuccess\<close> after its first statement \<open>this.loading = false\<close>: the branch on
  \<open>response.success\<close>.
\<close>

definition handleUploadSuccess_branch :: "response \<Rightarrow> view_state \<Rightarrow> view_state" where
  "handleUploadSuccess_branch response s =
     (if success response then
        s\<lparr>analysisResults := data response,
          sentimentResults := sentiment response,
          emojiCloudData := emoji_clouds_or_symbol_cloud response,
          reportUrl := report_url response,
          messages := messages s @ [MsgSuccess ''Analysis completed!'']\<rparr>
      else
        s\<lparr>messages := messages s @
             [MsgError (''Analysis failed: '' @
                toString (js_or (error response) (Str ''Unknown error'')))]\<rparr>)"

definition handleUploadSuccess :: "response \<Rightarrow> view_state \<Rightarrow> view_state" where
  "handleUploadSuccess response s =
     handleUploadSuccess_branch response (s\<lparr>loading := False\<rparr>)"

text \<open>
  \<open>handleUploadError\<close> after its first statement \<open>this.loading = false\<close>: the error is
  logged and a notification is shown.
\<close>

definition handleUploadError_report :: "string \<Rightarrow> view_state \<Rightarrow> view_state" where
  "handleUploadError_report err s =
     s\<lparr>console := console s @ [(''Upload error:'', err)],
       messages := messages s @ [MsgError ''Upload failed, please try again!'']\<rparr>"

definition handleUploadError :: "string \<Rightarrow> view_state \<Rightarrow> view_state" where
  "handleUploadError err s = handleUploadError_report err (s\<lparr>loading := False\<rparr>)"

definition getImageUrl :: "jstr \<Rightarrow> jstr \<Rightarrow> string" where
  "getImageUrl env path =
     (if \<not> truthy path then '''' else http_defaults_baseURL env @ ''/'' @ toString path)"

definition getWordCloudUrl :: "jstr \<Rightarrow> jstr \<Rightarrow> string" where
  "getWordCloudUrl env path =
     (if \<not> truthy path then '''' else http_defaults_baseURL env @ ''/'' @ toString path)"

definition downloadReport :: "jstr \<Rightarrow> view_state \<Rightarrow> view_state" where
  "downloadReport env s =
     (if truthy (reportUrl s) then
        s\<lparr>windows := windows s @
             [(http_defaults_baseURL env @ toString (reportUrl s), ''_blank'')]\<rparr>
      else s\<lparr>messages := messages s @ [MsgError ''Report not available'']\<rparr>)"

section \<open>The newer view (\<open>frontend-v3/src/views/HomeView.vue\<close>)\<close>

definition uploadActionUrl :: string where
  "uploadActionUrl = apiClient_baseURL @ ''/api/upload''"

definition beforeUpload_v3 :: "raw_file \<Rightarrow> view_state \<Rightarrow> bool \<times> view_state" where
  "beforeUpload_v3 rawFile s =
     (let isCSV = (ftype rawFile = ''text/csv'' \<or> endsWith (fname rawFile) ''.csv'') in
      if \<not> isCSV then
        (False, s\<lparr>messages := messages s @ [MsgError ''Only CSV files are allowed!'']\<rparr>)
      else
        (True, s\<lparr>loading := True, analysisResults := None, sentimentResults := None,
                 emojiCloudData := None, reportUrl := Null\<rparr>))"

definition handleUploadSuccess_v3 :: "response \<Rightarrow> view_state \<Rightarrow> view_state" where
  "handleUploadSuccess_v3 response s =
     handleUploadSuccess_branch response (s\<lparr>loading := False\<rparr>)"

definition handleUploadError_v3 :: "string \<Rightarrow> view_state \<Rightarrow> view_state" where
  "handleUploadError_v3 err s = handleUploadError_report err (s\<lparr>loading := False\<rparr>)"

definition getImageUrl_v3 :: "jstr \<Rightarrow> string" where
  "getImageUrl_v3 path =
     (if \<not> truthy path then '''' else apiClient_baseURL @ ''/'' @ toString path)"

definition getWordCloudUrl_v3 :: "jstr \<Rightarrow> string" where
  "getWordCloudUrl_v3 path =
     (if \<not> truthy path then '''' else apiClient_baseURL @ ''/'' @ toString path)"

definition downloadReport_v3 :: "view_state \<Rightarrow> view_state" where
  "downloadReport_v3 s =
     (if truthy (reportUrl s) then
        s\<lparr>windows := windows s @
             [(apiClient_baseURL @ toString (reportUrl s), ''_blank'')]\<rparr>
      else s\<lparr>messages := messages s @ [MsgError ''Report not available'']\<rparr>)"

section \<open>The upload control\<close>

text \<open>
  The \<open>el-upload\<close> element of both templates: the component calls the \<open>before-upload\<close>
  hook with the file and posts the file to \<open>action\<close> only when the hook has not returned
  \<open>false\<close>.
\<close>

definition el_upload ::
  "string \<Rightarrow> (raw_file \<Rightarrow> view_state \<Rightarrow> bool \<times> view_state) \<Rightarrow> raw_file \<Rightarrow> view_state \<Rightarrow> view_state" where
  "el_upload action before rawFile s =
     (case before rawFile s of
        (ok, s') \<Rightarrow> if ok then s'\<lparr>requests := requests s' @ [(action, rawFile)]\<rparr> else s')"

definition upload :: "jstr \<Rightarrow> raw_file \<Rightarrow> view_state \<Rightarrow> view_state" where
  "upload env = el_upload (http_defaults_baseURL env @ ''/api/upload'') beforeUpload"

definition upload_v3 :: "raw_file \<Rightarrow> view_state \<Rightarrow> view_state" where
  "upload_v3 = el_upload uploadActionUrl beforeUpload_v3"

section \<open>Template fragments\<close>

text \<open>
  Both templates put the results inside \<open>v-if="analysisResults"\<close>, and a render either
  produces the whole block or raises an error and shows nothing of it. The older template
  reads \<open>sentimentResults.radar_chart\<close> and \<open>sentimentResults.summary\<close> in that block without
  a guard: with \<open>analysisResults\<close> set and \<open>sentimentResults\<close> \<open>null\<close> or \<open>undefined\<close> its
  render raises a \<open>TypeError\<close>. The newer template has \<open>v-if="sentimentResults"\<close> on that row.

  The daily average is the same expression in both,
  \<open>(total_messages / total_days).toFixed(2)\<close> between fixed texts.
\<close>

definition dailyAverage :: "view_state \<Rightarrow> js_error + string option" where
  "dailyAverage s =
     (case analysisResults s of
        None \<Rightarrow> Inr None
      | Some a \<Rightarrow>
          (case toFixed 2 (js_divide (total_messages (time_analysis a))
                                     (total_days (time_analysis a))) of
             Inl err \<Rightarrow> Inl err
           | Inr digits \<Rightarrow>
               (case sentimentResults s of
                  None \<Rightarrow> Inl TypeError
                | Some sen \<Rightarrow>
                    Inr (Some (''Daily average: '' @ digits @ '' messages/day'')))))"

definition dailyAverage_v3 :: "view_state \<Rightarrow> js_error + string option" where
  "dailyAverage_v3 s =
     (case analysisResults s of
        None \<Rightarrow> Inr None
      | Some a \<Rightarrow>
          (case toFixed 2 (js_divide (total_messages (time_analysis a))
                                     (total_days (time_analysis a))) of
             Inl err \<Rightarrow> Inl err
           | Inr digits \<Rightarrow> Inr (Some (''Daily average: '' @ digits @ '' messages/day''))))"

text \<open>
  The emoji section: the row has
  \<open>v-if="emojiCloudData && (emojiCloudData.sender || emojiCloudData.receiver)"\<close>, and each
  column its own \<open>v-if\<close> on its side. A rendered column is the \<open>src\<close> of its frame.
\<close>

record emoji_section =
  your_emoji :: "string option"
  other_emoji :: "string option"

definition emojiRow :: "(jstr \<Rightarrow> string) \<Rightarrow> emoji_cloud option \<Rightarrow> emoji_section option" where
  "emojiRow url stored =
     (case stored of
        None \<Rightarrow> None
      | Some e \<Rightarrow>
          if truthy (ec_sender e) \<or> truthy (ec_receiver e) then
            Some \<lparr>your_emoji =
                    (if truthy (ec_sender e) then Some (url (ec_sender e)) else None),
                  other_emoji =
                    (if truthy (ec_receiver e) then Some (url (ec_receiver e)) else None)\<rparr>
          else None)"

definition emojiSection :: "jstr \<Rightarrow> view_state \<Rightarrow> js_error + emoji_section option" where
  "emojiSection env s =
     (case analysisResults s of
        None \<Rightarrow> Inr None
      | Some a \<Rightarrow>
          (case sentimentResults s of
             None \<Rightarrow> Inl TypeError
           | Some sen \<Rightarrow> Inr (emojiRow (getWordCloudUrl env) (emojiCloudData s))))"

definition emojiSection_v3 :: "view_state \<Rightarrow> emoji_section option" where
  "emojiSection_v3 s =
     (case analysisResults s of
        None \<Rightarrow> None
      | Some a \<Rightarrow> emojiRow getWordCloudUrl_v3 (emojiCloudData s))"

section \<open>Concrete inputs\<close>

definition png_file :: raw_file where
  "png_file = \<lparr>ftype = ''image/png'', fname = ''photo.png''\<rparr>"

definition csv_file :: raw_file where
  "csv_file = \<lparr>ftype = ''text/csv'', fname = ''chat.csv''\<rparr>"

definition example_analysis :: analysis where
  "example_analysis =
     \<lparr>time_analysis =
        \<lparr>first_date = ''2024-01-01'', last_date = ''2024-01-31'', total_days = number 31,
         total_messages = number 620, monthly_chart = Str ''static/monthly.png'',
         hourly_chart = Str ''static/hourly.png''\<rparr>,
      calendar_heatmap = Str ''static/heatmap.png'',
      word_cloud =
        \<lparr>wc_both = Str ''static/both.html'', wc_sender = Str ''static/sender.html'',
         wc_receiver = Str ''static/receiver.html'', wc_french = Undefined\<rparr>\<rparr>"


definition example_sentiment :: sentiment_results where
  "example_sentiment =
     \<lparr>radar_chart = Str ''static/radar.png'', summary = ''Mostly positive''\<rparr>"

definition ok_response :: response where
  "ok_response =
     \<lparr>success = True, data = Some example_analysis, sentiment = Some example_sentiment,
      emoji_clouds = None, emoji_symbol_cloud = None,
      report_url = Str ''/api/reports/report.pdf'', error = Undefined\<rparr>"

definition counts_analysis :: "jsnum \<Rightarrow> jsnum \<Rightarrow> analysis" where
  "counts_analysis messages_sent days =
     example_analysis\<lparr>time_analysis :=
       (time_analysis example_analysis)\<lparr>total_days := days, total_messages := messages_sent\<rparr>\<rparr>"

definition counts_response :: "jsnum \<Rightarrow> jsnum \<Rightarrow> response" where
  "counts_response messages_sent days = ok_response\<lparr>data := Some (counts_analysis messages_sent days)\<rparr>"

definition both_clouds_response :: response where
  "both_clouds_response =
     ok_response
       \<lparr>emoji_clouds :=
          Some \<lparr>ec_sender = Undefined, ec_receiver = Str ''static/emoji_receiver.html''\<rparr>,
        emoji_symbol_cloud :=
          Some \<lparr>ec_sender = Str ''static/emoji_sender.html'', ec_receiver = Undefined\<rparr>\<rparr>"

definition symbol_cloud_response :: response where
  "symbol_cloud_response =
     ok_response\<lparr>emoji_symbol_cloud :=
       Some \<lparr>ec_sender = Str ''static/emoji_sender.html'', ec_receiver = Undefined\<rparr>\<rparr>"

definition failed_response :: response where
  "failed_response =
     \<lparr>success = False, data = None, sentiment = None, emoji_clouds = None,
      emoji_symbol_cloud = None, report_url = Undefined, error = Undefined\<rparr>"

section \<open>Helper facts\<close>

lemma endsWith_iff_suffix: "endsWith s t = suffix t s"
proof
  assume "endsWith s t"
  then have "drop (length s - length t) s = t"
    by (simp add: endsWith_def)
  then show "suffix t s"
    by (metis suffix_drop)
next
  assume "suffix t s"
  then obtain p where "s = p @ t"
    by (auto simp: suffix_def)
  then show "endsWith s t"
    by (simp add: endsWith_def)
qed

lemma API_BASE_URL_cases:
  "API_BASE_URL env = (if truthy env then toString env else ''http://localhost:8082'')"
  by (simp add: API_BASE_URL_def js_or_def)

lemma endsWith_append: "endsWith (p @ t) t"
  by (simp add: endsWith_def)

lemma handleUploadSuccess_stores:
  "success r \<Longrightarrow>
   analysisResults (handleUploadSuccess r s) = data r \<and>
   sentimentResults (handleUploadSuccess r s) = sentiment r \<and>
   emojiCloudData (handleUploadSuccess r s) = emoji_clouds_or_symbol_cloud r \<and>
   analysisResults (handleUploadSuccess_v3 r s) = data r \<and>
   sentimentResults (handleUploadSuccess_v3 r s) = sentiment r \<and>
   emojiCloudData (handleUploadSuccess_v3 r s) = emoji_clouds_or_symbol_cloud r"
  by (simp add: handleUploadSuccess_def handleUploadSuccess_v3_def handleUploadSuccess_branch_def)

lemma older_render_reads_sentiment:
  "analysisResults s = Some a \<Longrightarrow> sentimentResults s = None \<Longrightarrow>
   emojiSection env s = Inl TypeError \<and> dailyAverage s = Inl TypeError"
  by (simp add: emojiSection_def dailyAverage_def toFixed_def)

lemma newer_render_guards_sentiment:
  "analysisResults s = Some a \<Longrightarrow>
   emojiSection_v3 s = emojiRow getWordCloudUrl_v3 (emojiCloudData s) \<and>
   (\<exists>shown. dailyAverage_v3 s = Inr (Some shown))"
  by (simp add: emojiSection_v3_def dailyAverage_v3_def toFixed_def)

lemma counts_response_fields:
  "success (counts_response m d)"
  "sentiment (counts_response m d) \<noteq> None"
  "data (counts_response m d) = Some (counts_analysis m d)"
  "total_messages (time_analysis (counts_analysis m d)) = m"
  "total_days (time_analysis (counts_analysis m d)) = d"
  by (simp_all add: counts_response_def counts_analysis_def ok_response_def)

lemma average_620_31: "toFixed_string 2 (js_divide (number 620) (number 31)) = ''20.00''"
  by code_simp

lemma average_1_3: "toFixed_string 2 (js_divide (number 1) (number 3)) = ''0.33''"
  by code_simp

lemma average_201_200: "toFixed_string 2 (js_divide (number 201) (number 200)) = ''1.00''"
  by code_simp

lemma average_1_8: "toFixed_string 2 (js_divide (number 1) (number 8)) = ''0.13''"
  by code_simp

lemma average_minus_1_1000:
  "toFixed_string 2 (js_divide (number (- 1)) (number 1000)) = ''-0.00''"
  by code_simp

lemma average_huge:
  "toFixed_string 2 (js_divide (number 1180591620717411303424) (number 1)) =
     ''1.1805916207174113e+21''"
  by code_simp

lemma number_0: "number 0 = Finite False 0 (- 1074)"
  by (simp add: number_def round_to_double_def)

lemma number_42: "number 42 = Finite False 5910974510923776 (- 47)"
  by code_simp

section \<open>Upload validation\<close>

text \<open>
  C1. In both views a file is rejected exactly when its MIME type is not \<open>text/csv\<close> and its
  name does not end with \<open>.csv\<close>. A rejected file makes \<open>beforeUpload\<close> return false with
  the notification "Only CSV files are allowed!" as its only effect, and the upload control
  posts no request for it.
\<close>

theorem beforeUpload_rejects_exactly_non_csv:
  "(fst (beforeUpload f s) = False \<longleftrightarrow>
      ftype f \<noteq> ''text/csv'' \<and> \<not> endsWith (fname f) ''.csv'') \<and>
   (fst (beforeUpload_v3 f s) = False \<longleftrightarrow>
      ftype f \<noteq> ''text/csv'' \<and> \<not> endsWith (fname f) ''.csv'') \<and>
   (ftype f \<noteq> ''text/csv'' \<and> \<not> endsWith (fname f) ''.csv'' \<longrightarrow>
      beforeUpload f s =
        (False, s\<lparr>messages := messages s @ [MsgError ''Only CSV files are allowed!'']\<rparr>) \<and>
      beforeUpload_v3 f s =
        (False, s\<lparr>messages := messages s @ [MsgError ''Only CSV files are allowed!'']\<rparr>) \<and>
      requests (upload env f s) = requests s \<and>
      requests (upload_v3 f s) = requests s)"
  by (simp add: beforeUpload_def beforeUpload_v3_def upload_def upload_v3_def el_upload_def)

theorem beforeUpload_rejects_exactly_non_csv_witness:
  "ftype png_file \<noteq> ''text/csv'' \<and> \<not> endsWith (fname png_file) ''.csv'' \<and>
   beforeUpload png_file initial_state =
     (False, initial_state\<lparr>messages := [MsgError ''Only CSV files are allowed!'']\<rparr>) \<and>
   beforeUpload_v3 png_file initial_state =
     (False, initial_state\<lparr>messages := [MsgError ''Only CSV files are allowed!'']\<rparr>) \<and>
   requests (upload Undefined png_file initial_state) = [] \<and>
   requests (upload_v3 png_file initial_state) = []"
  using beforeUpload_rejects_exactly_non_csv [of png_file initial_state Undefined]
  by (simp add: png_file_def initial_state_def endsWith_def)

section \<open>URL construction\<close>

text \<open>
  C3. In both views \<open>getImageUrl\<close> and \<open>getWordCloudUrl\<close> return the base URL of the view,
  a slash and the path for a truthy path (a non-empty string \<open>p\<close> is spliced in as it is), and
  the empty string for a falsy one.
\<close>

theorem getImageUrl_base_slash_path:
  "(truthy path \<longrightarrow>
      getImageUrl env path = http_defaults_baseURL env @ ''/'' @ toString path \<and>
      getWordCloudUrl env path = http_defaults_baseURL env @ ''/'' @ toString path \<and>
      getImageUrl_v3 path = apiClient_baseURL @ ''/'' @ toString path \<and>
      getWordCloudUrl_v3 path = apiClient_baseURL @ ''/'' @ toString path) \<and>
   (p \<noteq> [] \<longrightarrow>
      getImageUrl env (Str p) = http_defaults_baseURL env @ ''/'' @ p \<and>
      getWordCloudUrl env (Str p) = http_defaults_baseURL env @ ''/'' @ p \<and>
      getImageUrl_v3 (Str p) = apiClient_baseURL @ ''/'' @ p \<and>
      getWordCloudUrl_v3 (Str p) = apiClient_baseURL @ ''/'' @ p) \<and>
   (\<not> truthy path \<longrightarrow>
      getImageUrl env path = '''' \<and> getWordCloudUrl env path = '''' \<and>
      getImageUrl_v3 path = '''' \<and> getWordCloudUrl_v3 path = '''')"
  by (simp add: getImageUrl_def getWordCloudUrl_def getImageUrl_v3_def getWordCloudUrl_v3_def)

theorem getImageUrl_base_slash_path_witness:
  "getImageUrl Undefined (Str ''static/monthly.png'') =
     ''http://localhost:8082/static/monthly.png'' \<and>
   getWordCloudUrl (Str ''https://api.example.com'') (Str ''static/both.html'') =
     ''https://api.example.com/static/both.html'' \<and>
   getImageUrl_v3 (Str ''static/monthly.png'') = ''http://localhost:8082/static/monthly.png'' \<and>
   getWordCloudUrl_v3 (Str ''static/both.html'') = ''http://localhost:8082/static/both.html'' \<and>
   getImageUrl Undefined Undefined = '''' \<and> getWordCloudUrl Undefined Null = '''' \<and>
   getImageUrl_v3 (Str '''') = '''' \<and> getWordCloudUrl_v3 Undefined = ''''"
  using
    getImageUrl_base_slash_path [of "Str ''static/monthly.png''" Undefined "''static/both.html''"]
    getImageUrl_base_slash_path
      [of "Str ''static/both.html''" "Str ''https://api.example.com''" "''static/both.html''"]
    getImageUrl_base_slash_path [of Undefined Undefined "''static/both.html''"]
    getImageUrl_base_slash_path [of Null Undefined "''static/both.html''"]
    getImageUrl_base_slash_path [of "Str ''''" Undefined "''static/both.html''"]
  by (simp add: http_defaults_baseURL_def API_BASE_URL_cases apiClient_baseURL_def)

section \<open>Report download\<close>

text \<open>
  C4, as the claim states it, fails for a report URL that is not \<open>null\<close> but falsy: with the
  empty string stored, neither view opens a tab and both show "Report not available".
\<close>

theorem downloadReport_empty_url_counterexample:
  "reportUrl (initial_state\<lparr>reportUrl := Str ''''\<rparr>) \<noteq> Null \<and>
   windows (downloadReport Undefined (initial_state\<lparr>reportUrl := Str ''''\<rparr>)) = [] \<and>
   messages (downloadReport Undefined (initial_state\<lparr>reportUrl := Str ''''\<rparr>)) =
     [MsgError ''Report not available''] \<and>
   windows (downloadReport_v3 (initial_state\<lparr>reportUrl := Str ''''\<rparr>)) = [] \<and>
   messages (downloadReport_v3 (initial_state\<lparr>reportUrl := Str ''''\<rparr>)) =
     [MsgError ''Report not available'']"
  by (simp add: downloadReport_def downloadReport_v3_def initial_state_def)

text \<open>
  C4, amended. With a falsy \<open>reportUrl\<close> (\<open>null\<close>, \<open>undefined\<close> or the empty string)
  \<open>downloadReport\<close> only shows "Report not available" and opens no tab; with a non-empty
  string \<open>u\<close> stored it only opens the base URL followed directly by \<open>u\<close>, in a new tab.
\<close>

theorem downloadReport_opens_truthy_url:
  "(\<not> truthy (reportUrl s) \<longrightarrow>
      downloadReport env s =
        s\<lparr>messages := messages s @ [MsgError ''Report not available'']\<rparr> \<and>
      downloadReport_v3 s =
        s\<lparr>messages := messages s @ [MsgError ''Report not available'']\<rparr> \<and>
      windows (downloadReport env s) = windows s \<and>
      windows (downloadReport_v3 s) = windows s) \<and>
   (u \<noteq> [] \<longrightarrow>
      downloadReport env (s\<lparr>reportUrl := Str u\<rparr>) =
        s\<lparr>reportUrl := Str u,
          windows := windows s @ [(http_defaults_baseURL env @ u, ''_blank'')]\<rparr> \<and>
      downloadReport_v3 (s\<lparr>reportUrl := Str u\<rparr>) =
        s\<lparr>reportUrl := Str u,
          windows := windows s @ [(apiClient_baseURL @ u, ''_blank'')]\<rparr>)"
  by (simp add: downloadReport_def downloadReport_v3_def)

theorem downloadReport_opens_truthy_url_witness:
  "\<not> truthy (reportUrl initial_state) \<and>
   windows (downloadReport Undefined initial_state) = [] \<and>
   messages (downloadReport Undefined initial_state) = [MsgError ''Report not available''] \<and>
   windows (downloadReport_v3 initial_state) = [] \<and>
   messages (downloadReport_v3 initial_state) = [MsgError ''Report not available''] \<and>
   windows (downloadReport Undefined
              (initial_state\<lparr>reportUrl := Str ''/api/reports/report.pdf''\<rparr>)) =
     [(''http://localhost:8082/api/reports/report.pdf'', ''_blank'')] \<and>
   windows (downloadReport_v3 (initial_state\<lparr>reportUrl := Str ''/api/reports/report.pdf''\<rparr>)) =
     [(''http://localhost:8082/api/reports/report.pdf'', ''_blank'')]"
  using downloadReport_opens_truthy_url [of initial_state Undefined "''/api/reports/report.pdf''"]
  by (simp add: initial_state_def http_defaults_baseURL_def API_BASE_URL_cases
      apiClient_baseURL_def)

section \<open>Emoji section\<close>

text \<open>
  C5, as the claim states it, fails for a successful response that carries its emoji paths
  under \<open>emoji_symbol_cloud\<close> only: \<open>emoji_clouds\<close> is absent, so both of its sides are,
  and still both views render the section with the sender's frame.
\<close>

theorem emoji_section_symbol_cloud_counterexample:
  "success symbol_cloud_response \<and> emoji_clouds symbol_cloud_response = None \<and>
   emojiSection Undefined (handleUploadSuccess symbol_cloud_response initial_state) =
     Inr (Some \<lparr>your_emoji = Some ''http://localhost:8082/static/emoji_sender.html'',
                other_emoji = None\<rparr>) \<and>
   emojiSection_v3 (handleUploadSuccess_v3 symbol_cloud_response initial_state) =
     Some \<lparr>your_emoji = Some ''http://localhost:8082/static/emoji_sender.html'',
           other_emoji = None\<rparr>"
  by (simp add: symbol_cloud_response_def ok_response_def initial_state_def
      handleUploadSuccess_def handleUploadSuccess_v3_def handleUploadSuccess_branch_def
      emoji_clouds_or_symbol_cloud_def emojiSection_def emojiSection_v3_def emojiRow_def
      getWordCloudUrl_def getWordCloudUrl_v3_def http_defaults_baseURL_def
      API_BASE_URL_cases apiClient_baseURL_def)

text \<open>
  C5, amended. For a successful response that carries \<open>data\<close> (in the older view:
  \<open>data\<close> and \<open>sentiment\<close>), the emoji section is decided by the object the views store,
  \<open>emoji_clouds\<close> when it is present and \<open>emoji_symbol_cloud\<close> otherwise: the section is
  absent when neither object is present, and with an object \<open>e\<close> stored it is absent exactly
  when both \<open>e.sender\<close> and \<open>e.receiver\<close> are falsy; otherwise it shows exactly the sides
  whose path is truthy, each framed at the URL \<open>getWordCloudUrl\<close> gives for its path.
\<close>

theorem emoji_section_shows_stored_sides:
  assumes "success r" and "data r = Some a"
  shows
    "(emoji_clouds r = None \<and> emoji_symbol_cloud r = None \<longrightarrow>
        emojiSection_v3 (handleUploadSuccess_v3 r s) = None \<and>
        (sentiment r \<noteq> None \<longrightarrow> emojiSection env (handleUploadSuccess r s) = Inr None)) \<and>
     (emoji_clouds r = Some e \<or> emoji_clouds r = None \<and> emoji_symbol_cloud r = Some e \<longrightarrow>
        (emojiSection_v3 (handleUploadSuccess_v3 r s) = None \<longleftrightarrow>
           \<not> truthy (ec_sender e) \<and> \<not> truthy (ec_receiver e)) \<and>
        (truthy (ec_sender e) \<or> truthy (ec_receiver e) \<longrightarrow>
           emojiSection_v3 (handleUploadSuccess_v3 r s) =
             Some \<lparr>your_emoji =
                     (if truthy (ec_sender e)
                      then Some (getWordCloudUrl_v3 (ec_sender e)) else None),
                   other_emoji =
                     (if truthy (ec_receiver e)
                      then Some (getWordCloudUrl_v3 (ec_receiver e)) else None)\<rparr>) \<and>
        (sentiment r \<noteq> None \<longrightarrow>
           (emojiSection env (handleUploadSuccess r s) = Inr None \<longleftrightarrow>
              \<not> truthy (ec_sender e) \<and> \<not> truthy (ec_receiver e)) \<and>
           (truthy (ec_sender e) \<or> truthy (ec_receiver e) \<longrightarrow>
              emojiSection env (handleUploadSuccess r s) =
                Inr (Some \<lparr>your_emoji =
                             (if truthy (ec_sender e)
                              then Some (getWordCloudUrl env (ec_sender e)) else None),
                           other_emoji =
                             (if truthy (ec_receiver e)
                              then Some (getWordCloudUrl env (ec_receiver e)) else None)\<rparr>))))"
proof -
  have stored: "emoji_clouds r = None \<and> emoji_symbol_cloud r = None \<Longrightarrow>
      emoji_clouds_or_symbol_cloud r = None"
    "emoji_clouds r = Some e \<or> emoji_clouds r = None \<and> emoji_symbol_cloud r = Some e \<Longrightarrow>
      emoji_clouds_or_symbol_cloud r = Some e"
    by (auto simp: emoji_clouds_or_symbol_cloud_def)
  show ?thesis
    using handleUploadSuccess_stores [OF assms(1), of s] assms(2) stored
    by (auto simp: emojiSection_def emojiSection_v3_def emojiRow_def)
qed

theorem emoji_section_shows_stored_sides_witness:
  "success ok_response \<and> data ok_response = Some example_analysis \<and>
   emoji_clouds ok_response = None \<and> emoji_symbol_cloud ok_response = None \<and>
   sentiment ok_response \<noteq> None \<and>
   emojiSection Undefined (handleUploadSuccess ok_response initial_state) = Inr None \<and>
   emojiSection_v3 (handleUploadSuccess_v3 ok_response initial_state) = None \<and>
   emoji_clouds symbol_cloud_response = None \<and>
   emojiSection (Str ''https://api.example.com'')
       (handleUploadSuccess symbol_cloud_response initial_state) =
     Inr (Some \<lparr>your_emoji = Some ''https://api.example.com/static/emoji_sender.html'',
                other_emoji = None\<rparr>) \<and>
   emojiSection_v3 (handleUploadSuccess_v3 (symbol_cloud_response\<lparr>sentiment := None\<rparr>)
       initial_state) =
     Some \<lparr>your_emoji = Some ''http://localhost:8082/static/emoji_sender.html'',
           other_emoji = None\<rparr> \<and>
   emoji_clouds both_clouds_response \<noteq> None \<and>
   emoji_symbol_cloud both_clouds_response \<noteq> None \<and>
   emojiSection Undefined (handleUploadSuccess both_clouds_response initial_state) =
     Inr (Some \<lparr>your_emoji = None,
                other_emoji = Some ''http://localhost:8082/static/emoji_receiver.html''\<rparr>) \<and>
   emojiSection_v3 (handleUploadSuccess_v3 both_clouds_response initial_state) =
     Some \<lparr>your_emoji = None,
           other_emoji = Some ''http://localhost:8082/static/emoji_receiver.html''\<rparr>"
proof -
  have ok: "success ok_response" "data ok_response = Some example_analysis"
    "emoji_clouds ok_response = None" "emoji_symbol_cloud ok_response = None"
    "sentiment ok_response \<noteq> None"
    by (simp_all add: ok_response_def)
  have sy: "success symbol_cloud_response"
    "data symbol_cloud_response = Some example_analysis"
    "emoji_clouds symbol_cloud_response = None"
    "emoji_symbol_cloud symbol_cloud_response =
       Some \<lparr>ec_sender = Str ''static/emoji_sender.html'', ec_receiver = Undefined\<rparr>"
    "sentiment symbol_cloud_response \<noteq> None"
    by (simp_all add: symbol_cloud_response_def ok_response_def)
  have sn: "success (symbol_cloud_response\<lparr>sentiment := None\<rparr>)"
    "data (symbol_cloud_response\<lparr>sentiment := None\<rparr>) = Some example_analysis"
    "emoji_clouds (symbol_cloud_response\<lparr>sentiment := None\<rparr>) = None"
    "emoji_symbol_cloud (symbol_cloud_response\<lparr>sentiment := None\<rparr>) =
       Some \<lparr>ec_sender = Str ''static/emoji_sender.html'', ec_receiver = Undefined\<rparr>"
    by (simp_all add: symbol_cloud_response_def ok_response_def)
  have bo: "success both_clouds_response"
    "data both_clouds_response = Some example_analysis"
    "emoji_clouds both_clouds_response =
       Some \<lparr>ec_sender = Undefined, ec_receiver = Str ''static/emoji_receiver.html''\<rparr>"
    "emoji_symbol_cloud both_clouds_response \<noteq> None"
    "sentiment both_clouds_response \<noteq> None"
    by (simp_all add: both_clouds_response_def ok_response_def)
  note urls = getWordCloudUrl_def getWordCloudUrl_v3_def http_defaults_baseURL_def
    API_BASE_URL_cases apiClient_baseURL_def
  have absent:
    "emojiSection Undefined (handleUploadSuccess ok_response initial_state) = Inr None"
    "emojiSection_v3 (handleUploadSuccess_v3 ok_response initial_state) = None"
    using emoji_section_shows_stored_sides [OF ok(1) ok(2),
        where env = Undefined and s = initial_state
          and e = "\<lparr>ec_sender = Undefined, ec_receiver = Undefined\<rparr>"] ok
    by simp_all
  have symbol:
    "emojiSection (Str ''https://api.example.com'')
         (handleUploadSuccess symbol_cloud_response initial_state) =
       Inr (Some \<lparr>your_emoji = Some ''https://api.example.com/static/emoji_sender.html'',
                  other_emoji = None\<rparr>)"
    using emoji_section_shows_stored_sides [OF sy(1) sy(2),
        where env = "Str ''https://api.example.com''" and s = initial_state
          and e = "\<lparr>ec_sender = Str ''static/emoji_sender.html'', ec_receiver = Undefined\<rparr>"]
      sy
    by (simp add: urls)
  have symbol_v3:
    "emojiSection_v3 (handleUploadSuccess_v3 (symbol_cloud_response\<lparr>sentiment := None\<rparr>)
         initial_state) =
       Some \<lparr>your_emoji = Some ''http://localhost:8082/static/emoji_sender.html'',
             other_emoji = None\<rparr>"
    using emoji_section_shows_stored_sides [OF sn(1) sn(2),
        where env = Undefined and s = initial_state
          and e = "\<lparr>ec_sender = Str ''static/emoji_sender.html'', ec_receiver = Undefined\<rparr>"]
      sn
    by (simp add: urls)
  have both:
    "emojiSection Undefined (handleUploadSuccess both_clouds_response initial_state) =
       Inr (Some \<lparr>your_emoji = None,
                  other_emoji = Some ''http://localhost:8082/static/emoji_receiver.html''\<rparr>)"
    "emojiSection_v3 (handleUploadSuccess_v3 both_clouds_response initial_state) =
       Some \<lparr>your_emoji = None,
             other_emoji = Some ''http://localhost:8082/static/emoji_receiver.html''\<rparr>"
    using emoji_section_shows_stored_sides [OF bo(1) bo(2),
        where env = Undefined and s = initial_state
          and e = "\<lparr>ec_sender = Undefined, ec_receiver = Str ''static/emoji_receiver.html''\<rparr>"]
      bo
    by (simp_all add: urls)
  show ?thesis
    using ok sy(3) bo(4) absent symbol symbol_v3 both
    by (simp add: bo(3))
qed

section \<open>Failed analysis\<close>

text \<open>
  C6. For a response with \<open>success\<close> false both views show one error notification, whose
  text \<open>shown\<close> is "Analysis failed: " followed by the response's error text, or by
  "Unknown error" when the error field is falsy. With the field absent the fallback is used, and
  in every case the text ends with "Unknown error" or with the error text of the response.
\<close>

theorem handleUploadSuccess_failure_message:
  assumes "\<not> success r"
    and "shown = ''Analysis failed: '' @
           (if truthy (error r) then toString (error r) else ''Unknown error'')"
  shows
    "messages (handleUploadSuccess r s) = messages s @ [MsgError shown] \<and>
     messages (handleUploadSuccess_v3 r s) = messages s @ [MsgError shown] \<and>
     (error r = Undefined \<longrightarrow> shown = ''Analysis failed: Unknown error'') \<and>
     (error r = Str e \<and> e \<noteq> [] \<longrightarrow> shown = ''Analysis failed: '' @ e) \<and>
     (endsWith shown ''Unknown error'' \<or> (\<exists>e. error r = Str e \<and> endsWith shown e))"
proof -
  have "endsWith shown ''Unknown error'' \<or> (\<exists>e. error r = Str e \<and> endsWith shown e)"
  proof (cases "truthy (error r)")
    case True
    then obtain e where "error r = Str e"
      by (cases "error r") simp_all
    with True assms(2) have "error r = Str e \<and> endsWith shown e"
      using endsWith_append [of "''Analysis failed: ''" e] by simp
    then show ?thesis by blast
  next
    case False
    with assms(2) have "endsWith shown ''Unknown error''"
      using endsWith_append [of "''Analysis failed: ''" "''Unknown error''"] by simp
    then show ?thesis by blast
  qed
  moreover have "messages (handleUploadSuccess r s) = messages s @ [MsgError shown]"
    "messages (handleUploadSuccess_v3 r s) = messages s @ [MsgError shown]"
    using assms
    by (simp_all add: handleUploadSuccess_def handleUploadSuccess_v3_def
        handleUploadSuccess_branch_def js_or_def)
  moreover have "error r = Undefined \<longrightarrow> shown = ''Analysis failed: Unknown error''"
    using assms(2) by simp
  moreover have "error r = Str e \<and> e \<noteq> [] \<longrightarrow> shown = ''Analysis failed: '' @ e"
    using assms(2) by simp
  ultimately show ?thesis by blast
qed

theorem handleUploadSuccess_failure_message_witness:
  "\<not> success failed_response \<and> error failed_response = Undefined \<and>
   messages (handleUploadSuccess failed_response initial_state) =
     [MsgError ''Analysis failed: Unknown error''] \<and>
   messages (handleUploadSuccess_v3 failed_response initial_state) =
     [MsgError ''Analysis failed: Unknown error''] \<and>
   messages (handleUploadSuccess (failed_response\<lparr>error := Str ''No messages found''\<rparr>)
               initial_state) =
     [MsgError ''Analysis failed: No messages found'']"
  using handleUploadSuccess_failure_message
      [where r = failed_response and shown = "''Analysis failed: Unknown error''"
         and s = initial_state and e = "''No messages found''"]
    handleUploadSuccess_failure_message
      [where r = "failed_response\<lparr>error := Str ''No messages found''\<rparr>"
         and shown = "''Analysis failed: No messages found''"
         and s = initial_state and e = "''No messages found''"]
  by (simp add: failed_response_def initial_state_def)

text \<open>
  C9. For a response with \<open>success\<close> false both views keep \<open>analysisResults\<close>,
  \<open>sentimentResults\<close>, \<open>emojiCloudData\<close> and \<open>reportUrl\<close> as they were: putting the old
  loading flag and the old notifications back gives the state before the response.
\<close>

theorem handleUploadSuccess_failure_keeps_results:
  assumes "\<not> success r"
  shows
    "analysisResults (handleUploadSuccess r s) = analysisResults s \<and>
     sentimentResults (handleUploadSuccess r s) = sentimentResults s \<and>
     emojiCloudData (handleUploadSuccess r s) = emojiCloudData s \<and>
     reportUrl (handleUploadSuccess r s) = reportUrl s \<and>
     (handleUploadSuccess r s)\<lparr>loading := loading s, messages := messages s\<rparr> = s \<and>
     analysisResults (handleUploadSuccess_v3 r s) = analysisResults s \<and>
     sentimentResults (handleUploadSuccess_v3 r s) = sentimentResults s \<and>
     emojiCloudData (handleUploadSuccess_v3 r s) = emojiCloudData s \<and>
     reportUrl (handleUploadSuccess_v3 r s) = reportUrl s \<and>
     (handleUploadSuccess_v3 r s)\<lparr>loading := loading s, messages := messages s\<rparr> = s"
  using assms
  by (simp add: handleUploadSuccess_def handleUploadSuccess_v3_def
      handleUploadSuccess_branch_def)

theorem handleUploadSuccess_failure_keeps_results_witness:
  "\<not> success failed_response \<and>
   analysisResults
     (handleUploadSuccess failed_response (handleUploadSuccess ok_response initial_state)) =
     Some example_analysis \<and>
   sentimentResults
     (handleUploadSuccess failed_response (handleUploadSuccess ok_response initial_state)) =
     Some example_sentiment \<and>
   reportUrl
     (handleUploadSuccess failed_response (handleUploadSuccess ok_response initial_state)) =
     Str ''/api/reports/report.pdf'' \<and>
   analysisResults
     (handleUploadSuccess_v3 failed_response (handleUploadSuccess_v3 ok_response initial_state)) =
     Some example_analysis"
proof -
  have f: "\<not> success failed_response"
    by (simp add: failed_response_def)
  show ?thesis
    using f
      handleUploadSuccess_failure_keeps_results
        [OF f, of "handleUploadSuccess ok_response initial_state"]
      handleUploadSuccess_failure_keeps_results
        [OF f, of "handleUploadSuccess_v3 ok_response initial_state"]
    by (simp add: handleUploadSuccess_def handleUploadSuccess_v3_def
        handleUploadSuccess_branch_def ok_response_def)
qed

section \<open>Loading phase\<close>

text \<open>
  C7. For an accepted file \<open>beforeUpload\<close> has set the loading flag when the upload control
  posts the request: the state the request is added to is the one \<open>beforeUpload\<close> returned.
  Each response handler is its first statement, which clears the flag, followed by a rest that
  does not touch it, so the flag is false after \<open>handleUploadSuccess\<close> on any response and
  after \<open>handleUploadError\<close>, in both views.
\<close>

theorem loading_true_then_false:
  "(fst (beforeUpload f s) \<longrightarrow>
      loading (snd (beforeUpload f s)) \<and>
      upload env f s =
        (snd (beforeUpload f s))
          \<lparr>requests := requests s @ [(http_defaults_baseURL env @ ''/api/upload'', f)]\<rparr>) \<and>
   (fst (beforeUpload_v3 f s) \<longrightarrow>
      loading (snd (beforeUpload_v3 f s)) \<and>
      upload_v3 f s =
        (snd (beforeUpload_v3 f s))\<lparr>requests := requests s @ [(uploadActionUrl, f)]\<rparr>) \<and>
   handleUploadSuccess r s = handleUploadSuccess_branch r (s\<lparr>loading := False\<rparr>) \<and>
   handleUploadSuccess_v3 r s = handleUploadSuccess_branch r (s\<lparr>loading := False\<rparr>) \<and>
   handleUploadError err s = handleUploadError_report err (s\<lparr>loading := False\<rparr>) \<and>
   handleUploadError_v3 err s = handleUploadError_report err (s\<lparr>loading := False\<rparr>) \<and>
   loading (handleUploadSuccess_branch r s) = loading s \<and>
   loading (handleUploadError_report err s) = loading s \<and>
   \<not> loading (handleUploadSuccess r s) \<and> \<not> loading (handleUploadSuccess_v3 r s) \<and>
   \<not> loading (handleUploadError err s) \<and> \<not> loading (handleUploadError_v3 err s)"
  by (simp add: beforeUpload_def beforeUpload_v3_def upload_def upload_v3_def el_upload_def
      handleUploadSuccess_def handleUploadSuccess_v3_def handleUploadSuccess_branch_def
      handleUploadError_def handleUploadError_v3_def handleUploadError_report_def Let_def)

theorem loading_true_then_false_witness:
  "fst (beforeUpload csv_file initial_state) \<and>
   loading (snd (beforeUpload csv_file initial_state)) \<and>
   fst (beforeUpload_v3 csv_file initial_state) \<and>
   loading (snd (beforeUpload_v3 csv_file initial_state)) \<and>
   requests (upload Undefined csv_file initial_state) =
     [(''http://localhost:8082/api/upload'', csv_file)] \<and>
   requests (upload_v3 csv_file initial_state) =
     [(''http://localhost:8082/api/upload'', csv_file)] \<and>
   \<not> loading (handleUploadSuccess ok_response (upload Undefined csv_file initial_state)) \<and>
   \<not> loading (handleUploadSuccess failed_response (upload Undefined csv_file initial_state)) \<and>
   \<not> loading (handleUploadError ''Network Error'' (upload Undefined csv_file initial_state)) \<and>
   \<not> loading (handleUploadSuccess_v3 failed_response (upload_v3 csv_file initial_state)) \<and>
   \<not> loading (handleUploadError_v3 ''Network Error'' (upload_v3 csv_file initial_state))"
proof -
  have accepted: "fst (beforeUpload csv_file initial_state)"
    "fst (beforeUpload_v3 csv_file initial_state)"
    by (simp_all add: beforeUpload_def beforeUpload_v3_def csv_file_def)
  have entered: "loading (snd (beforeUpload csv_file initial_state))"
    "loading (snd (beforeUpload_v3 csv_file initial_state))"
    using accepted
      loading_true_then_false [where f = csv_file and s = initial_state and env = Undefined
        and r = ok_response and err = "''Network Error''"]
    by blast+
  have posted: "requests (upload Undefined csv_file initial_state) =
      [(''http://localhost:8082/api/upload'', csv_file)]"
    "requests (upload_v3 csv_file initial_state) =
      [(''http://localhost:8082/api/upload'', csv_file)]"
    by (simp_all add: upload_def upload_v3_def el_upload_def beforeUpload_def
        beforeUpload_v3_def csv_file_def initial_state_def http_defaults_baseURL_def
        API_BASE_URL_cases uploadActionUrl_def apiClient_baseURL_def)
  have left: "\<not> loading (handleUploadSuccess ok_response
                 (upload Undefined csv_file initial_state))"
    using loading_true_then_false [where f = csv_file
        and s = "upload Undefined csv_file initial_state" and env = Undefined
        and r = ok_response and err = "''Network Error''"]
    by blast
  have left_failed:
    "\<not> loading (handleUploadSuccess failed_response
         (upload Undefined csv_file initial_state))"
    "\<not> loading (handleUploadError ''Network Error''
         (upload Undefined csv_file initial_state))"
    using loading_true_then_false [where f = csv_file
        and s = "upload Undefined csv_file initial_state" and env = Undefined
        and r = failed_response and err = "''Network Error''"]
    by blast+
  have left_v3:
    "\<not> loading (handleUploadSuccess_v3 failed_response (upload_v3 csv_file initial_state))"
    "\<not> loading (handleUploadError_v3 ''Network Error'' (upload_v3 csv_file initial_state))"
    using loading_true_then_false [where f = csv_file
        and s = "upload_v3 csv_file initial_state" and env = Undefined
        and r = failed_response and err = "''Network Error''"]
    by blast+
  show ?thesis
    using accepted entered posted left left_failed left_v3 by blast
qed

section \<open>Reset of the results on a new upload\<close>

text \<open>
  C2. The older view does not reset the results: on an accepted file shown after a successful
  analysis its \<open>beforeUpload\<close> only sets the loading flag, and the previous results and
  report URL stay in the state, where the newer view sets all four fields to \<open>null\<close>.
\<close>

theorem beforeUpload_keeps_previous_results:
  "beforeUpload csv_file (handleUploadSuccess ok_response initial_state) =
     (True, (handleUploadSuccess ok_response initial_state)\<lparr>loading := True\<rparr>) \<and>
   analysisResults (snd (beforeUpload csv_file (handleUploadSuccess ok_response initial_state))) =
     Some example_analysis \<and>
   sentimentResults (snd (beforeUpload csv_file (handleUploadSuccess ok_response initial_state))) =
     Some example_sentiment \<and>
   reportUrl (snd (beforeUpload csv_file (handleUploadSuccess ok_response initial_state))) =
     Str ''/api/reports/report.pdf'' \<and>
   analysisResults
     (snd (beforeUpload_v3 csv_file (handleUploadSuccess_v3 ok_response initial_state))) = None \<and>
   sentimentResults
     (snd (beforeUpload_v3 csv_file (handleUploadSuccess_v3 ok_response initial_state))) = None \<and>
   reportUrl
     (snd (beforeUpload_v3 csv_file (handleUploadSuccess_v3 ok_response initial_state))) = Null"
  by (simp add: beforeUpload_def beforeUpload_v3_def csv_file_def handleUploadSuccess_def
      handleUploadSuccess_v3_def handleUploadSuccess_branch_def ok_response_def)

section \<open>Daily average\<close>

text \<open>
  C10. For a successful response that carries \<open>data\<close>, the daily average is the quotient
  \<open>total_messages / total_days\<close> of the two numbers passed to \<open>toFixed(2)\<close>, whatever the
  divisor is: the newer view renders it so, the older view renders it so when the response
  carries \<open>sentiment\<close>, and whenever it renders a daily average at all. No branch excludes
  a zero divisor: with \<open>total_days\<close> a zero of either sign the division is still made and
  the text is "NaN" for a zero dividend and "Infinity" or "-Infinity", by the signs of the
  operands, for any other finite dividend.
\<close>

theorem dailyAverage_divides_unguarded:
  assumes "success r" and "data r = Some a"
    and "average =
           js_divide (total_messages (time_analysis a)) (total_days (time_analysis a))"
  shows
    "dailyAverage_v3 (handleUploadSuccess_v3 r s) =
       Inr (Some (''Daily average: '' @ toFixed_string 2 average @ '' messages/day'')) \<and>
     (sentiment r \<noteq> None \<longrightarrow>
        dailyAverage (handleUploadSuccess r s) =
          Inr (Some (''Daily average: '' @ toFixed_string 2 average @ '' messages/day''))) \<and>
     (\<forall>shown. dailyAverage (handleUploadSuccess r s) = Inr (Some shown) \<longrightarrow>
        shown = ''Daily average: '' @ toFixed_string 2 average @ '' messages/day'') \<and>
     (total_days (time_analysis a) = Finite sd 0 e \<longrightarrow>
        toFixed_string 2 average \<in> {''NaN'', ''Infinity'', ''-Infinity''} \<and>
        (total_messages (time_analysis a) = Finite sm m e' \<and> m \<noteq> 0 \<longrightarrow>
           toFixed_string 2 average = (if sm = sd then ''Infinity'' else ''-Infinity'')) \<and>
        (total_messages (time_analysis a) = Finite sm 0 e' \<longrightarrow>
           toFixed_string 2 average = ''NaN''))"
proof -
  have rendered: "dailyAverage_v3 (handleUploadSuccess_v3 r s) =
      Inr (Some (''Daily average: '' @ toFixed_string 2 average @ '' messages/day''))"
    using handleUploadSuccess_stores [OF assms(1), of s] assms(2,3)
    by (simp add: dailyAverage_v3_def toFixed_def)
  have rendered_older: "sentiment r \<noteq> None \<longrightarrow>
      dailyAverage (handleUploadSuccess r s) =
        Inr (Some (''Daily average: '' @ toFixed_string 2 average @ '' messages/day''))"
    using handleUploadSuccess_stores [OF assms(1), of s] assms(2,3)
    by (auto simp: dailyAverage_def toFixed_def)
  have whenever: "\<forall>shown. dailyAverage (handleUploadSuccess r s) = Inr (Some shown) \<longrightarrow>
      shown = ''Daily average: '' @ toFixed_string 2 average @ '' messages/day''"
    using handleUploadSuccess_stores [OF assms(1), of s] assms(2,3)
    by (auto simp: dailyAverage_def toFixed_def split: option.splits)
  have by_zero: "total_days (time_analysis a) = Finite sd 0 e \<longrightarrow>
      toFixed_string 2 average \<in> {''NaN'', ''Infinity'', ''-Infinity''} \<and>
      (total_messages (time_analysis a) = Finite sm m e' \<and> m \<noteq> 0 \<longrightarrow>
         toFixed_string 2 average = (if sm = sd then ''Infinity'' else ''-Infinity'')) \<and>
      (total_messages (time_analysis a) = Finite sm 0 e' \<longrightarrow>
         toFixed_string 2 average = ''NaN'')"
    using assms(3)
    by (cases "total_messages (time_analysis a)") (auto simp: toFixed_string_def)
  from rendered rendered_older whenever by_zero show ?thesis by blast
qed

theorem dailyAverage_divides_unguarded_witness:
  "success (counts_response (number 620) (number 31)) \<and>
   dailyAverage (handleUploadSuccess (counts_response (number 620) (number 31)) initial_state) =
     Inr (Some ''Daily average: 20.00 messages/day'') \<and>
   dailyAverage_v3
       (handleUploadSuccess_v3 (counts_response (number 620) (number 31)) initial_state) =
     Inr (Some ''Daily average: 20.00 messages/day'') \<and>
   dailyAverage_v3
       (handleUploadSuccess_v3 (counts_response (number 1) (number 3)) initial_state) =
     Inr (Some ''Daily average: 0.33 messages/day'') \<and>
   dailyAverage_v3
       (handleUploadSuccess_v3 (counts_response (number 201) (number 200)) initial_state) =
     Inr (Some ''Daily average: 1.00 messages/day'') \<and>
   dailyAverage_v3
       (handleUploadSuccess_v3 (counts_response (number 1) (number 8)) initial_state) =
     Inr (Some ''Daily average: 0.13 messages/day'') \<and>
   dailyAverage_v3
       (handleUploadSuccess_v3 (counts_response (number (- 1)) (number 1000)) initial_state) =
     Inr (Some ''Daily average: -0.00 messages/day'') \<and>
   dailyAverage_v3
       (handleUploadSuccess_v3 (counts_response (number 1180591620717411303424) (number 1))
          initial_state) =
     Inr (Some ''Daily average: 1.1805916207174113e+21 messages/day'') \<and>
   dailyAverage (handleUploadSuccess (counts_response (number 42) (number 0)) initial_state) =
     Inr (Some ''Daily average: Infinity messages/day'') \<and>
   dailyAverage_v3
       (handleUploadSuccess_v3 (counts_response (number 42) (Finite True 0 (- 1074)))
          initial_state) =
     Inr (Some ''Daily average: -Infinity messages/day'') \<and>
   dailyAverage_v3
       (handleUploadSuccess_v3 (counts_response (number 0) (number 0)) initial_state) =
     Inr (Some ''Daily average: NaN messages/day'')"
proof -
  have zero_divisor:
    "toFixed_string 2 (js_divide (number 42) (number 0)) = ''Infinity''"
    "toFixed_string 2 (js_divide (number 42) (Finite True 0 (- 1074))) = ''-Infinity''"
    "toFixed_string 2 (js_divide (number 0) (number 0)) = ''NaN''"
    using dailyAverage_divides_unguarded
      [where r = "counts_response (number 42) (number 0)"
         and a = "counts_analysis (number 42) (number 0)" and s = initial_state
         and sd = False and e = "- 1074" and sm = False and m = 5910974510923776 and e' = "- 47",
       OF counts_response_fields(1) counts_response_fields(3) refl,
       THEN conjunct2, THEN conjunct2, THEN conjunct2, rule_format]
      dailyAverage_divides_unguarded
      [where r = "counts_response (number 42) (Finite True 0 (- 1074))"
         and a = "counts_analysis (number 42) (Finite True 0 (- 1074))" and s = initial_state
         and sd = True and e = "- 1074" and sm = False and m = 5910974510923776 and e' = "- 47",
       OF counts_response_fields(1) counts_response_fields(3) refl,
       THEN conjunct2, THEN conjunct2, THEN conjunct2, rule_format]
      dailyAverage_divides_unguarded
      [where r = "counts_response (number 0) (number 0)"
         and a = "counts_analysis (number 0) (number 0)" and s = initial_state
         and sd = False and e = "- 1074" and sm = False and m = 0 and e' = "- 1074",
       OF counts_response_fields(1) counts_response_fields(3) refl,
       THEN conjunct2, THEN conjunct2, THEN conjunct2, rule_format]
    by (simp_all add: counts_response_fields(4,5) number_0 number_42)
  show ?thesis
    using counts_response_fields(1) [of "number 620" "number 31"]
      dailyAverage_divides_unguarded
      [where r = "counts_response (number 620) (number 31)"
         and a = "counts_analysis (number 620) (number 31)" and s = initial_state
         and sd = False and e = "- 1074" and sm = False and m = 5910974510923776 and e' = "- 47",
       OF counts_response_fields(1) counts_response_fields(3) refl,
       THEN conjunct2, THEN conjunct1, rule_format, OF counts_response_fields(2)]
      dailyAverage_divides_unguarded
      [where r = "counts_response (number 620) (number 31)"
         and a = "counts_analysis (number 620) (number 31)" and s = initial_state
         and sd = False and e = "- 1074" and sm = False and m = 5910974510923776 and e' = "- 47",
       OF counts_response_fields(1) counts_response_fields(3) refl, THEN conjunct1]
      dailyAverage_divides_unguarded
      [where r = "counts_response (number 1) (number 3)"
         and a = "counts_analysis (number 1) (number 3)" and s = initial_state
         and sd = False and e = "- 1074" and sm = False and m = 5910974510923776 and e' = "- 47",
       OF counts_response_fields(1) counts_response_fields(3) refl, THEN conjunct1]
      dailyAverage_divides_unguarded
      [where r = "counts_response (number 201) (number 200)"
         and a = "counts_analysis (number 201) (number 200)" and s = initial_state
         and sd = False and e = "- 1074" and sm = False and m = 5910974510923776 and e' = "- 47",
       OF counts_response_fields(1) counts_response_fields(3) refl, THEN conjunct1]
      dailyAverage_divides_unguarded
      [where r = "counts_response (number 1) (number 8)"
         and a = "counts_analysis (number 1) (number 8)" and s = initial_state
         and sd = False and e = "- 1074" and sm = False and m = 5910974510923776 and e' = "- 47",
       OF counts_response_fields(1) counts_response_fields(3) refl, THEN conjunct1]
      dailyAverage_divides_unguarded
      [where r = "counts_response (number (- 1)) (number 1000)"
         and a = "counts_analysis (number (- 1)) (number 1000)" and s = initial_state
         and sd = False and e = "- 1074" and sm = False and m = 5910974510923776 and e' = "- 47",
       OF counts_response_fields(1) counts_response_fields(3) refl, THEN conjunct1]
      dailyAverage_divides_unguarded
      [where r = "counts_response (number 1180591620717411303424) (number 1)"
         and a = "counts_analysis (number 1180591620717411303424) (number 1)" and s = initial_state
         and sd = False and e = "- 1074" and sm = False and m = 5910974510923776 and e' = "- 47",
       OF counts_response_fields(1) counts_response_fields(3) refl, THEN conjunct1]
      dailyAverage_divides_unguarded
      [where r = "counts_response (number 42) (number 0)"
         and a = "counts_analysis (number 42) (number 0)" and s = initial_state
         and sd = False and e = "- 1074" and sm = False and m = 5910974510923776 and e' = "- 47",
       OF counts_response_fields(1) counts_response_fields(3) refl,
       THEN conjunct2, THEN conjunct1, rule_format, OF counts_response_fields(2)]
      dailyAverage_divides_unguarded
      [where r = "counts_response (number 42) (Finite True 0 (- 1074))"
         and a = "counts_analysis (number 42) (Finite True 0 (- 1074))" and s = initial_state
         and sd = False and e = "- 1074" and sm = False and m = 5910974510923776 and e' = "- 47",
       OF counts_response_fields(1) counts_response_fields(3) refl, THEN conjunct1]
      dailyAverage_divides_unguarded
      [where r = "counts_response (number 0) (number 0)"
         and a = "counts_analysis (number 0) (number 0)" and s = initial_state
         and sd = False and e = "- 1074" and sm = False and m = 5910974510923776 and e' = "- 47",
       OF counts_response_fields(1) counts_response_fields(3) refl, THEN conjunct1]
    by (simp add: counts_response_fields(4,5) average_620_31 average_1_3 average_201_200
        average_1_8 average_minus_1_1000 average_huge zero_divisor)
qed

section \<open>Base URL\<close>

text \<open>
  C8. The older frontend takes its base URL from the environment variable and falls back to
  \<open>http://localhost:8082\<close>. The newer frontend does not: its view builds a client on the
  literal \<open>http://localhost:8082\<close> whatever the environment holds, and its service module
  builds a second client on another literal, \<open>http://localhost:8082/api\<close>.
\<close>

theorem base_url_not_single_setting:
  "API_BASE_URL (Str ''https://api.example.com'') = ''https://api.example.com'' \<and>
   http_defaults_baseURL (Str ''https://api.example.com'') = ''https://api.example.com'' \<and>
   API_BASE_URL Undefined = ''http://localhost:8082'' \<and>
   apiClient_baseURL = ''http://localhost:8082'' \<and>
   uploadActionUrl = ''http://localhost:8082/api/upload'' \<and>
   services_apiClient_baseURL = ''http://localhost:8082/api'' \<and>
   apiClient_baseURL \<noteq> services_apiClient_baseURL"
  by (simp add: API_BASE_URL_cases http_defaults_baseURL_def apiClient_baseURL_def
      uploadActionUrl_def services_apiClient_baseURL_def)

end
